theory Spec2Isabelle
  imports Main "HOL-Library.Sublist"
begin

section \<open>JavaScript values\<close>

text \<open>
  The webhook payload is typed \<open>any\<close> in the source, so the model works on the values
  that \<open>JSON.parse\<close> can return (and \<open>undefined\<close>, which property reads produce).
  Strings are byte strings holding the UTF-8 encoding of the JavaScript string.
  \<open>JNum n\<close> is an integer-valued number that JavaScript prints in plain decimal
  notation (magnitude below \<open>10^21\<close>); fractional numbers are not part of the model.
  An object is the list of its own properties; the first entry for a key is the
  property's value.
\<close>

datatype js_value =
    JUndefined
  | JNull
  | JBool bool
  | JNum int
  | JStr string
  | JArr "js_value list"
  | JObj "(string \<times> js_value) list"

text \<open>
  What \<open>parseInt\<close> returns, and what the canonical record carries as block number and
  chain id: a JavaScript number. \<open>Finite n\<close> is the double whose value is the integer
  \<open>n\<close>.
\<close>

datatype js_number = NaN | Finite int | PosInfinity | NegInfinity

text \<open>
  Thrown values. \<open>Error name message\<close> is an instance of \<open>Error\<close> (\<open>TypeError\<close>,
  \<open>SyntaxError\<close>, \<open>RangeError\<close>, the database client's errors); \<open>ZodError\<close> carries
  its issues as pairs of the joined path and the message; \<open>Thrown v\<close> is any other thrown value.
\<close>

datatype js_error =
    ZodError "(string \<times> string) list"
  | Error string string
  | Thrown js_value

text \<open>\<open>try { body } catch (error) { handler }\<close>\<close>

definition try_catch :: "js_error + 'a \<Rightarrow> (js_error \<Rightarrow> js_error + 'a) \<Rightarrow> js_error + 'a" where
  "try_catch body handler = (case body of Inl error \<Rightarrow> handler error | Inr v \<Rightarrow> Inr v)"

subsection \<open>Truthiness and property reads\<close>

fun truthy :: "js_value \<Rightarrow> bool" where
  "truthy JUndefined = False"
| "truthy JNull = False"
| "truthy (JBool b) = b"
| "truthy (JNum n) = (n \<noteq> 0)"
| "truthy (JStr s) = (s \<noteq> [])"
| "truthy (JArr xs) = True"
| "truthy (JObj kvs) = True"

text \<open>\<open>a || b\<close>\<close>

definition or_else :: "js_value \<Rightarrow> js_value \<Rightarrow> js_value" where
  "or_else a b = (if truthy a then a else b)"

definition nullish :: "js_value \<Rightarrow> bool" where
  "nullish v = (v = JUndefined \<or> v = JNull)"

text \<open>
  \<open>v.name\<close> for the property names this code reads (\<open>event\<close>, \<open>activity\<close>, \<open>type\<close>,
  \<open>hash\<close>, \<open>blockNum\<close>, \<open>timestamp\<close>, \<open>chainId\<close>, \<open>fromAddress\<close>, \<open>toAddress\<close>,
  \<open>value\<close>, \<open>gasUsed\<close>, \<open>gasPrice\<close>, \<open>status\<close>): none of them is defined on a built-in
  prototype, so the read gives the object's own property or \<open>undefined\<close>. Reading a
  property of \<open>null\<close> or \<open>undefined\<close> throws a \<open>TypeError\<close>.
\<close>

fun member :: "js_value \<Rightarrow> string \<Rightarrow> js_error + js_value" where
  "member JUndefined name =
     Inl (Error ''TypeError''
       (''Cannot read properties of undefined (reading '' @ [CHR 0x27] @ name @ [CHR 0x27] @ '')''))"
| "member JNull name =
     Inl (Error ''TypeError''
       (''Cannot read properties of null (reading '' @ [CHR 0x27] @ name @ [CHR 0x27] @ '')''))"
| "member (JObj kvs) name = Inr (case map_of kvs name of Some v \<Rightarrow> v | None \<Rightarrow> JUndefined)"
| "member v name = Inr JUndefined"

text \<open>
  A read on a value already known not to be \<open>null\<close> or \<open>undefined\<close> (the activity entry
  has passed \<open>!activity\<close>): it cannot throw.
\<close>

definition field :: "js_value \<Rightarrow> string \<Rightarrow> js_value" where
  "field v name = (case member v name of Inl error \<Rightarrow> JUndefined | Inr x \<Rightarrow> x)"

text \<open>
  \<open>v[0]\<close> on a value that is not \<open>null\<close> or \<open>undefined\<close>: the first element of an
  array, the property \<open>"0"\<close> of an object, the first character of a string.
\<close>

fun element0 :: "js_value \<Rightarrow> js_value" where
  "element0 (JArr xs) = (case xs of [] \<Rightarrow> JUndefined | x # rest \<Rightarrow> x)"
| "element0 (JObj kvs) = (case map_of kvs ''0'' of Some v \<Rightarrow> v | None \<Rightarrow> JUndefined)"
| "element0 (JStr s) = (case s of [] \<Rightarrow> JUndefined | c # rest \<Rightarrow> JStr [c])"
| "element0 v = JUndefined"

subsection \<open>Digits and numerals\<close>

definition digit_value :: "char \<Rightarrow> nat option" where
  "digit_value c =
     (let n = (of_char c :: nat) in
      if 48 \<le> n \<and> n \<le> 57 then Some (n - 48)
      else if 97 \<le> n \<and> n \<le> 122 then Some (n - 87)
      else if 65 \<le> n \<and> n \<le> 90 then Some (n - 55)
      else None)"

definition is_digit :: "nat \<Rightarrow> char \<Rightarrow> bool" where
  "is_digit R c = (case digit_value c of None \<Rightarrow> False | Some d \<Rightarrow> d < R)"

definition digits_value :: "nat \<Rightarrow> string \<Rightarrow> nat" where
  "digits_value R ds =
     foldl (\<lambda>acc c. acc * R + (case digit_value c of None \<Rightarrow> 0 | Some d \<Rightarrow> d)) 0 ds"

definition digit_char :: "nat \<Rightarrow> char" where
  "digit_char d = (if d < 10 then char_of (48 + d) else char_of (87 + d))"

text \<open>The digits of \<open>n\<close> in radix \<open>R\<close>, most significant first, lower-case.\<close>

function to_radix :: "nat \<Rightarrow> nat \<Rightarrow> string" where
  "to_radix R n =
     (if n < R \<or> R < 2 then [digit_char n]
      else to_radix R (n div R) @ [digit_char (n mod R)])"
  by pat_completeness auto
termination
  by (relation "measure (\<lambda>(R, n). n)") auto

declare to_radix.simps [simp del]

text \<open>\<open>BigInt.prototype.toString()\<close>, and \<open>Number\<close> to string on the integers of the model.\<close>

definition bigint_to_string :: "int \<Rightarrow> string" where
  "bigint_to_string n =
     (if n < 0 then CHR ''-'' # to_radix 10 (nat (- n)) else to_radix 10 (nat n))"

definition number_to_string :: "js_number \<Rightarrow> string" where
  "number_to_string x =
     (case x of NaN \<Rightarrow> ''NaN'' | Finite n \<Rightarrow> bigint_to_string n
      | PosInfinity \<Rightarrow> ''Infinity'' | NegInfinity \<Rightarrow> ''-Infinity'')"

subsection \<open>White space\<close>

text \<open>
  The code points of \<open>WhiteSpace\<close> and \<open>LineTerminator\<close> (ECMAScript), in UTF-8:
  TAB, LF, VT, FF, CR, SP, U+00A0, U+1680, U+2000 to U+200A, U+2028, U+2029, U+202F,
  U+205F, U+3000, U+FEFF.
\<close>

definition white_space :: "string list" where
  "white_space =
     [[CHR 0x09], [CHR 0x0A], [CHR 0x0B], [CHR 0x0C], [CHR 0x0D], [CHR 0x20],
      [CHR 0xC2, CHR 0xA0],
      [CHR 0xE1, CHR 0x9A, CHR 0x80],
      [CHR 0xE2, CHR 0x80, CHR 0x80], [CHR 0xE2, CHR 0x80, CHR 0x81],
      [CHR 0xE2, CHR 0x80, CHR 0x82], [CHR 0xE2, CHR 0x80, CHR 0x83],
      [CHR 0xE2, CHR 0x80, CHR 0x84], [CHR 0xE2, CHR 0x80, CHR 0x85],
      [CHR 0xE2, CHR 0x80, CHR 0x86], [CHR 0xE2, CHR 0x80, CHR 0x87],
      [CHR 0xE2, CHR 0x80, CHR 0x88], [CHR 0xE2, CHR 0x80, CHR 0x89],
      [CHR 0xE2, CHR 0x80, CHR 0x8A],
      [CHR 0xE2, CHR 0x80, CHR 0xA8], [CHR 0xE2, CHR 0x80, CHR 0xA9],
      [CHR 0xE2, CHR 0x80, CHR 0xAF],
      [CHR 0xE2, CHR 0x81, CHR 0x9F],
      [CHR 0xE3, CHR 0x80, CHR 0x80],
      [CHR 0xEF, CHR 0xBB, CHR 0xBF]]"

text \<open>Drops leading occurrences of the given (non-empty) byte sequences.\<close>

function strip_leading :: "string list \<Rightarrow> string \<Rightarrow> string" where
  "strip_leading ws s =
     (case List.find (\<lambda>w. w \<noteq> [] \<and> prefix w s) ws of
        None \<Rightarrow> s
      | Some w \<Rightarrow> strip_leading ws (drop (length w) s))"
  by pat_completeness auto
termination
proof (relation "measure (\<lambda>(ws, s). length s)")
  show "wf (measure (\<lambda>(ws, s). length s))" by simp
next
  fix ws :: "string list" and s w :: string
  assume "List.find (\<lambda>w. w \<noteq> [] \<and> prefix w s) ws = Some w"
  then have "w \<noteq> []" and "prefix w s"
    by (auto simp: find_Some_iff)
  then have "w \<noteq> []" and "length w \<le> length s"
    by (auto simp: prefix_length_le)
  then show "((ws, drop (length w) s), (ws, s)) \<in> measure (\<lambda>(ws, s). length s)"
    by (cases w) auto
qed

declare strip_leading.simps [simp del]

definition trim_start :: "string \<Rightarrow> string" where
  "trim_start s = strip_leading white_space s"

definition trim_end :: "string \<Rightarrow> string" where
  "trim_end s = rev (strip_leading (map rev white_space) (rev s))"

definition trim :: "string \<Rightarrow> string" where
  "trim s = trim_end (trim_start s)"

subsection \<open>Conversions\<close>

text \<open>
  \<open>ToString\<close>. An array prints its elements joined by commas, \<open>null\<close> and \<open>undefined\<close>
  elements as the empty string. A parsed JSON object has no callable properties of its
  own: it prints as \<open>[object Object]\<close> through the inherited \<open>toString\<close>, unless an own
  property named \<open>toString\<close> hides it, in which case the conversion to a primitive
  throws a \<open>TypeError\<close>.
\<close>

fun to_string :: "js_value \<Rightarrow> js_error + string"
  and join_elements :: "js_value list \<Rightarrow> js_error + string" where
  "to_string JUndefined = Inr ''undefined''"
| "to_string JNull = Inr ''null''"
| "to_string (JBool b) = Inr (if b then ''true'' else ''false'')"
| "to_string (JNum n) = Inr (bigint_to_string n)"
| "to_string (JStr s) = Inr s"
| "to_string (JArr xs) = join_elements xs"
| "to_string (JObj kvs) =
     (case map_of kvs ''toString'' of
        Some v \<Rightarrow> Inl (Error ''TypeError'' ''Cannot convert object to primitive value'')
      | None \<Rightarrow> Inr ''[object Object]'')"
| "join_elements [] = Inr []"
| "join_elements (x # xs) =
     (case (if x = JUndefined \<or> x = JNull then Inr [] else to_string x) of
        Inl error \<Rightarrow> Inl error
      | Inr s \<Rightarrow>
          (case xs of
             [] \<Rightarrow> Inr s
           | y # ys \<Rightarrow>
               (case join_elements xs of
                  Inl error \<Rightarrow> Inl error
                | Inr r \<Rightarrow> Inr (s @ '','' @ r))))"

text \<open>
  The Number value of a non-negative mathematical integer: the nearest double, ties to
  the even significand. Integers below \<open>2^53\<close> are doubles themselves.
\<close>

function bit_length :: "nat \<Rightarrow> nat" where
  "bit_length n = (if n = 0 then 0 else Suc (bit_length (n div 2)))"
  by pat_completeness auto
termination
  by (relation "measure (\<lambda>n. n)") auto

declare bit_length.simps [simp del]

definition round_to_double :: "nat \<Rightarrow> nat" where
  "round_to_double n =
     (if n < 2 ^ 53 then n
      else
        (let k = bit_length n - 53;
             q = n div 2 ^ k;
             r = n mod 2 ^ k;
             half = 2 ^ (k - 1)
         in if r < half \<or> (r = half \<and> even q) then q * 2 ^ k else (q + 1) * 2 ^ k))"

definition number_of_integer :: "bool \<Rightarrow> nat \<Rightarrow> js_number" where
  "number_of_integer negative n =
     (let r = round_to_double n in
      if 2 ^ 1024 \<le> r then (if negative then NegInfinity else PosInfinity)
      else Finite (if negative then - int r else int r))"

text \<open>
  \<open>parseInt(string, radix)\<close>; radix \<open>0\<close> stands for a call without the radix argument.
  Leading white space is skipped, a sign is read, with radix 16 or none a \<open>0x\<close> prefix is
  skipped (and sets the radix to 16), and the longest prefix of digits of the radix is
  the number; with no such digit the result is \<open>NaN\<close>.
\<close>

definition parseInt_string :: "string \<Rightarrow> nat \<Rightarrow> js_number" where
  "parseInt_string inputString radix =
     (let S = trim_start inputString;
          negative = (take 1 S = ''-'');
          S1 = (if take 1 S = ''+'' \<or> take 1 S = ''-'' then drop 1 S else S);
          hexPrefix = ((radix = 0 \<or> radix = 16) \<and> (take 2 S1 = ''0x'' \<or> take 2 S1 = ''0X''));
          R = (if hexPrefix then 16 else if radix = 0 then 10 else radix);
          S2 = (if hexPrefix then drop 2 S1 else S1);
          Z = takeWhile (is_digit R) S2
      in if radix \<noteq> 0 \<and> (radix < 2 \<or> 36 < radix) then NaN
         else if Z = [] then NaN
         else number_of_integer negative (digits_value R Z))"

definition parseInt :: "js_value \<Rightarrow> nat \<Rightarrow> js_error + js_number" where
  "parseInt v radix =
     (case to_string v of Inl error \<Rightarrow> Inl error | Inr s \<Rightarrow> Inr (parseInt_string s radix))"

text \<open>
  \<open>StringToBigInt\<close>: white space is trimmed on both sides; the empty string is \<open>0n\<close>;
  otherwise the text is a decimal integer with an optional sign, or an unsigned
  \<open>0x\<close>, \<open>0o\<close> or \<open>0b\<close> literal. \<open>None\<close> stands for the \<open>SyntaxError\<close>.
\<close>

definition unsigned_literal :: "nat \<Rightarrow> string \<Rightarrow> int option" where
  "unsigned_literal R ds =
     (if ds \<noteq> [] \<and> list_all (is_digit R) ds then Some (int (digits_value R ds)) else None)"

definition StringToBigInt :: "string \<Rightarrow> int option" where
  "StringToBigInt str =
     (let s = trim str in
      if s = [] then Some 0
      else if take 2 s = ''0x'' \<or> take 2 s = ''0X'' then unsigned_literal 16 (drop 2 s)
      else if take 2 s = ''0o'' \<or> take 2 s = ''0O'' then unsigned_literal 8 (drop 2 s)
      else if take 2 s = ''0b'' \<or> take 2 s = ''0B'' then unsigned_literal 2 (drop 2 s)
      else if take 1 s = ''+'' then unsigned_literal 10 (drop 1 s)
      else if take 1 s = ''-'' then map_option uminus (unsigned_literal 10 (drop 1 s))
      else unsigned_literal 10 s)"

definition BigInt_string :: "string \<Rightarrow> js_error + int" where
  "BigInt_string s =
     (case StringToBigInt s of
        None \<Rightarrow> Inl (Error ''SyntaxError'' (''Cannot convert '' @ s @ '' to a BigInt''))
      | Some n \<Rightarrow> Inr n)"

text \<open>\<open>BigInt(v)\<close> on a value of the payload.\<close>

fun BigInt :: "js_value \<Rightarrow> js_error + int" where
  "BigInt JUndefined = Inl (Error ''TypeError'' ''Cannot convert undefined to a BigInt'')"
| "BigInt JNull = Inl (Error ''TypeError'' ''Cannot convert null to a BigInt'')"
| "BigInt (JBool b) = Inr (if b then 1 else 0)"
| "BigInt (JNum n) = Inr n"
| "BigInt (JStr s) = BigInt_string s"
| "BigInt v = (case to_string v of Inl error \<Rightarrow> Inl error | Inr s \<Rightarrow> BigInt_string s)"

text \<open>\<open>BigInt(x)\<close> on a number: a \<open>RangeError\<close> unless the number is an integer.\<close>

fun BigInt_number :: "js_number \<Rightarrow> js_error + int" where
  "BigInt_number (Finite n) = Inr n"
| "BigInt_number x =
     Inl (Error ''RangeError''
       (''The number '' @ number_to_string x
          @ '' cannot be converted to a BigInt because it is not an integer''))"

text \<open>
  \<open>String.prototype.toLowerCase\<close> on the ASCII letters (wallet addresses are hexadecimal
  text), and the method call \<open>v.toLowerCase()\<close> on a value of the payload, which throws
  a \<open>TypeError\<close> unless \<open>v\<close> is a string.
\<close>

definition lower_char :: "char \<Rightarrow> char" where
  "lower_char c =
     (let n = (of_char c :: nat) in if 65 \<le> n \<and> n \<le> 90 then char_of (n + 32) else c)"

definition toLowerCase :: "string \<Rightarrow> string" where
  "toLowerCase s = map lower_char s"

fun call_toLowerCase :: "js_value \<Rightarrow> js_error + string" where
  "call_toLowerCase (JStr s) = Inr (toLowerCase s)"
| "call_toLowerCase JUndefined =
     Inl (Error ''TypeError''
       (''Cannot read properties of undefined (reading '' @ [CHR 0x27] @ ''toLowerCase'' @ [CHR 0x27] @ '')''))"
| "call_toLowerCase JNull =
     Inl (Error ''TypeError''
       (''Cannot read properties of null (reading '' @ [CHR 0x27] @ ''toLowerCase'' @ [CHR 0x27] @ '')''))"
| "call_toLowerCase v = Inl (Error ''TypeError'' ''toLowerCase is not a function'')"

text \<open>
  \<open>new Date(v)\<close>. The model keeps the primitive the constructor is given and does not
  interpret it as a point in time; an object or array argument is first converted to
  a primitive, which can throw.
\<close>

datatype js_date = Date js_value

fun new_Date :: "js_value \<Rightarrow> js_error + js_date" where
  "new_Date (JArr xs) =
     (case to_string (JArr xs) of Inl error \<Rightarrow> Inl error | Inr s \<Rightarrow> Inr (Date (JStr s)))"
| "new_Date (JObj kvs) =
     (case to_string (JObj kvs) of Inl error \<Rightarrow> Inl error | Inr s \<Rightarrow> Inr (Date (JStr s)))"
| "new_Date v = Inr (Date v)"

section \<open>Blockchain indexer: the network table\<close>

datatype Network =
  ETH_MAINNET | ETH_SEPOLIA | BASE_MAINNET | BASE_SEPOLIA | ARB_MAINNET | ARB_SEPOLIA

record network_config =
  config_alchemy :: Network
  config_chainId :: int

definition NETWORK_CONFIG :: "(string \<times> network_config) list" where
  "NETWORK_CONFIG =
     [(''ethereum'', \<lparr>config_alchemy = ETH_MAINNET, config_chainId = 1\<rparr>),
      (''sepolia'', \<lparr>config_alchemy = ETH_SEPOLIA, config_chainId = 11155111\<rparr>),
      (''base'', \<lparr>config_alchemy = BASE_MAINNET, config_chainId = 8453\<rparr>),
      (''base-sepolia'', \<lparr>config_alchemy = BASE_SEPOLIA, config_chainId = 84532\<rparr>),
      (''arbitrum'', \<lparr>config_alchemy = ARB_MAINNET, config_chainId = 42161\<rparr>),
      (''arbitrum-sepolia'', \<lparr>config_alchemy = ARB_SEPOLIA, config_chainId = 421614\<rparr>)]"

text \<open>
  The loop of \<open>getNetworkFromChainId\<close> over \<open>Object.entries(NETWORK_CONFIG)\<close>: the first
  entry whose chain id is strictly equal to the argument (\<open>NaN\<close> equals none).
\<close>

fun network_of_entries :: "(string \<times> network_config) list \<Rightarrow> js_number \<Rightarrow> string option" where
  "network_of_entries [] chainId = None"
| "network_of_entries ((network, config) # rest) chainId =
     (if Finite (config_chainId config) = chainId then Some network
      else network_of_entries rest chainId)"

definition getNetworkFromChainId :: "js_number \<Rightarrow> js_error + string" where
  "getNetworkFromChainId chainId =
     (case network_of_entries NETWORK_CONFIG chainId of
        Some network \<Rightarrow> Inr network
      | None \<Rightarrow> Inl (Error ''Error'' (''Unknown chain ID: '' @ number_to_string chainId)))"

section \<open>The persistence layer\<close>

datatype UserRole = ADMIN | OPERATIONS | GROWTH | MERCHANT | USER

datatype TransactionType = DEPOSIT | WITHDRAWAL | CONVERSION | PAYMENT | TRANSFER | REFUND

datatype TransactionStatus = PENDING | CONFIRMED | COMPLETED | FAILED | CANCELLED

record user_row =
  user_id :: nat
  walletAddress :: string
  role :: UserRole

record transaction_metadata =
  rawValue :: js_value
  meta_gasUsed :: js_value
  meta_gasPrice :: js_value

record transaction_row =
  tx_id :: nat
  tx_userId :: nat
  tx_txHash :: string
  tx_blockNumber :: int
  tx_timestamp :: js_date
  tx_network :: string
  tx_chainId :: js_number
  tx_type :: TransactionType
  tx_status :: TransactionStatus
  tx_fromAddress :: string
  tx_toAddress :: string
  tx_fromTokenSymbol :: string
  tx_fromTokenAddress :: string
  tx_fromTokenAmount :: js_value
  tx_fromTokenDecimals :: int
  tx_toFiatCurrency :: string
  tx_toFiatAmount :: int
  tx_exchangeRate :: int
  tx_gasFeeWei :: string
  tx_gasFeeUSD :: int
  tx_platformFeeUSD :: int
  tx_metadata :: transaction_metadata

record store =
  users :: "user_row list"
  transactions :: "transaction_row list"

text \<open>
  Modelled from the spec: the database schema and client are not among the sources.
  The persistence layer exposes "find by hash", "find-or-create user by address" and
  "create transaction"; the transaction hash is unique, users are keyed by wallet
  address, and the store gives every new row an id of its own (a number here). A
  lookup by hash needs a string: the client refuses any other argument before it
  queries. A create that would break a uniqueness constraint is refused with the
  client's known-request error. What else the client checks of a new row's columns
  (the spec does not say) is left out: a create here fails for no other reason.
\<close>

definition fresh_id :: "nat list \<Rightarrow> nat" where
  "fresh_id ids = Suc (foldr max ids 0)"

definition transaction_findUnique :: "store \<Rightarrow> js_value \<Rightarrow> js_error + transaction_row option" where
  "transaction_findUnique s h =
     (case h of
        JStr hash \<Rightarrow> Inr (List.find (\<lambda>t. tx_txHash t = hash) (transactions s))
      | _ \<Rightarrow> Inl (Error ''PrismaClientValidationError''
                 ''Invalid prisma.transaction.findUnique() invocation''))"

definition user_findUnique :: "store \<Rightarrow> string \<Rightarrow> user_row option" where
  "user_findUnique s address = List.find (\<lambda>u. walletAddress u = address) (users s)"

definition user_create :: "store \<Rightarrow> string \<Rightarrow> UserRole \<Rightarrow> (js_error + user_row) \<times> store" where
  "user_create s address r =
     (if address \<in> set (map walletAddress (users s))
      then (Inl (Error ''PrismaClientKnownRequestError''
                  ''Unique constraint failed on the fields: (walletAddress)''), s)
      else
        (let user = \<lparr>user_id = fresh_id (map user_id (users s)),
                       walletAddress = address, role = r\<rparr>
         in (Inr user, s\<lparr>users := users s @ [user]\<rparr>)))"

definition transaction_create :: "store \<Rightarrow> transaction_row \<Rightarrow> (js_error + transaction_row) \<times> store" where
  "transaction_create s data =
     (if tx_txHash data \<in> set (map tx_txHash (transactions s))
      then (Inl (Error ''PrismaClientKnownRequestError''
                  ''Unique constraint failed on the fields: (txHash)''), s)
      else
        (let transaction = data\<lparr>tx_id := fresh_id (map tx_id (transactions s))\<rparr>
         in (Inr transaction, s\<lparr>transactions := transactions s @ [transaction]\<rparr>)))"

section \<open>Transaction processor\<close>

datatype provider_status = success | failed

text \<open>
  \<open>ProcessTransactionInput\<close>, the canonical record. The interface declares the hash, the
  addresses and the three amounts as strings, but the parser copies them from the
  untyped payload, so at run time they are whatever the payload held.
\<close>

record ProcessTransactionInput =
  txHash :: js_value
  blockNumber :: js_number
  timestamp :: js_date
  network :: string
  chainId :: js_number
  fromAddress :: js_value
  toAddress :: js_value
  value' :: js_value
  gasUsed :: js_value
  gasPrice :: js_value
  status :: provider_status

definition determineTransactionType :: "ProcessTransactionInput \<Rightarrow> js_error + TransactionType" where
  "determineTransactionType input =
     (case BigInt (value' input) of
        Inl error \<Rightarrow> Inl error
      | Inr valueInWei \<Rightarrow> Inr (if valueInWei > 0 then TRANSFER else CONVERSION))"

text \<open>The string a value is, for a value the store has accepted as a hash.\<close>

definition string_of :: "js_value \<Rightarrow> string" where
  "string_of v = (case v of JStr s \<Rightarrow> s | _ \<Rightarrow> [])"

text \<open>
  \<open>processTransaction\<close>: the result and the store it leaves. Its \<open>catch\<close> logs and
  rethrows, so an error of any step is the error of the call. The row handed to
  \<open>transaction_create\<close> carries the id \<open>0\<close> as a placeholder: the store assigns the id.
  The user is found or created before the arguments of the final create are
  evaluated.
\<close>

definition processTransaction ::
  "store \<Rightarrow> ProcessTransactionInput \<Rightarrow> (js_error + transaction_row) \<times> store" where
  "processTransaction s input =
     (case transaction_findUnique s (txHash input) of
        Inl error \<Rightarrow> (Inl error, s)
      | Inr (Some existingTx) \<Rightarrow> (Inr existingTx, s)
      | Inr None \<Rightarrow>
     (case determineTransactionType input of
        Inl error \<Rightarrow> (Inl error, s)
      | Inr transactionType \<Rightarrow>
     (let transactionStatus = (if status input = success then COMPLETED else FAILED) in
     (case BigInt (gasUsed input) of
        Inl error \<Rightarrow> (Inl error, s)
      | Inr used \<Rightarrow>
     (case BigInt (gasPrice input) of
        Inl error \<Rightarrow> (Inl error, s)
      | Inr price \<Rightarrow>
     (let gasFeeWei = bigint_to_string (used * price) in
     (case call_toLowerCase (fromAddress input) of
        Inl error \<Rightarrow> (Inl error, s)
      | Inr address \<Rightarrow>
     (case (case user_findUnique s address of
              Some found \<Rightarrow> (Inr found, s)
            | None \<Rightarrow> user_create s address USER) of
        (Inl error, s1) \<Rightarrow> (Inl error, s1)
      | (Inr user, s1) \<Rightarrow>
     (case BigInt_number (blockNumber input) of
        Inl error \<Rightarrow> (Inl error, s1)
      | Inr block \<Rightarrow>
     (case call_toLowerCase (toAddress input) of
        Inl error \<Rightarrow> (Inl error, s1)
      | Inr recipient \<Rightarrow>
          transaction_create s1
            \<lparr>tx_id = 0,
             tx_userId = user_id user,
             tx_txHash = string_of (txHash input),
             tx_blockNumber = block,
             tx_timestamp = timestamp input,
             tx_network = network input,
             tx_chainId = chainId input,
             tx_type = transactionType,
             tx_status = transactionStatus,
             tx_fromAddress = address,
             tx_toAddress = recipient,
             tx_fromTokenSymbol = ''ETH'',
             tx_fromTokenAddress = ''0x0000000000000000000000000000000000000000'',
             tx_fromTokenAmount = value' input,
             tx_fromTokenDecimals = 18,
             tx_toFiatCurrency = ''USD'',
             tx_toFiatAmount = 0,
             tx_exchangeRate = 0,
             tx_gasFeeWei = gasFeeWei,
             tx_gasFeeUSD = 0,
             tx_platformFeeUSD = 0,
             tx_metadata = \<lparr>rawValue = value' input, meta_gasUsed = gasUsed input,
                             meta_gasPrice = gasPrice input\<rparr>\<rparr>))))))))))"

text \<open>\<open>payload.event?.activity?.[0]\<close>: the read of \<open>event\<close> throws on a \<open>null\<close> payload.\<close>

definition first_activity :: "js_value \<Rightarrow> js_error + js_value" where
  "first_activity payload =
     (case member payload ''event'' of
        Inl error \<Rightarrow> Inl error
      | Inr event \<Rightarrow>
          if nullish event then Inr JUndefined
          else
            (case member event ''activity'' of
               Inl error \<Rightarrow> Inl error
             | Inr activity \<Rightarrow>
                 if nullish activity then Inr JUndefined else Inr (element0 activity)))"

text \<open>
  The body of the \<open>try\<close> in \<open>parseAlchemyWebhook\<close>; \<open>now\<close> is what \<open>Date.now()\<close> returns.
  \<open>None\<close> is the \<open>null\<close> result. The chain id is parsed twice in the source, from the
  same text, with the same result.
\<close>

definition parseAlchemyWebhook_body ::
  "int \<Rightarrow> js_value \<Rightarrow> js_error + ProcessTransactionInput option" where
  "parseAlchemyWebhook_body now payload =
     (case first_activity payload of
        Inl error \<Rightarrow> Inl error
      | Inr activity \<Rightarrow>
          if \<not> truthy activity then Inr None
          else
     (let tx = activity in
     (case parseInt (field tx ''blockNum'') 16 of
        Inl error \<Rightarrow> Inl error
      | Inr blockNum \<Rightarrow>
     (case new_Date (or_else (field tx ''timestamp'') (JNum now)) of
        Inl error \<Rightarrow> Inl error
      | Inr date \<Rightarrow>
     (case parseInt (or_else (field tx ''chainId'') (JStr ''1'')) 0 of
        Inl error \<Rightarrow> Inl error
      | Inr chain \<Rightarrow>
     (case getNetworkFromChainId chain of
        Inl error \<Rightarrow> Inl error
      | Inr networkName \<Rightarrow>
          Inr (Some
            \<lparr>txHash = field tx ''hash'',
             blockNumber = blockNum,
             timestamp = date,
             network = networkName,
             chainId = chain,
             fromAddress = field tx ''fromAddress'',
             toAddress = field tx ''toAddress'',
             value' = or_else (field tx ''value'') (JStr ''0''),
             gasUsed = or_else (field tx ''gasUsed'') (JStr ''0''),
             gasPrice = or_else (field tx ''gasPrice'') (JStr ''0''),
             status = (if field tx ''status'' = JStr ''0x1'' then success else failed)\<rparr>)))))))"

definition parseAlchemyWebhook ::
  "int \<Rightarrow> js_value \<Rightarrow> js_error + ProcessTransactionInput option" where
  "parseAlchemyWebhook now payload =
     try_catch (parseAlchemyWebhook_body now payload) (\<lambda>error. Inr None)"

section \<open>The webhook endpoint\<close>

record response =
  http_status :: nat
  json :: js_value

definition successResponse :: "js_value \<Rightarrow> nat \<Rightarrow> response" where
  "successResponse data code =
     \<lparr>http_status = code, json = JObj [(''success'', JBool True), (''data'', data)]\<rparr>"

definition errorResponse :: "string \<Rightarrow> nat \<Rightarrow> js_value \<Rightarrow> response" where
  "errorResponse message code errors =
     \<lparr>http_status = code,
      json = JObj [(''success'', JBool False), (''error'', JStr message), (''errors'', errors)]\<rparr>"

definition handleApiError :: "js_error \<Rightarrow> response" where
  "handleApiError error =
     (case error of
        ZodError issues \<Rightarrow>
          errorResponse ''Validation failed'' 400
            (JArr (map (\<lambda>(path, message).
               JObj [(''field'', JStr path), (''message'', JStr message)]) issues))
      | Error name message \<Rightarrow>
          if name = ''PrismaClientKnownRequestError''
          then errorResponse ''Database error'' 500 JUndefined
          else errorResponse message 500 JUndefined
      | Thrown v \<Rightarrow> errorResponse ''An unexpected error occurred'' 500 JUndefined)"

text \<open>
  What the handler takes from its surroundings: the environment variable, the run
  time's \<open>JSON.parse\<close> and keyed hash (\<open>createHmac('sha256', key)\<close>, \<open>update(body)\<close>,
  \<open>digest('hex')\<close>), and the clock. They are parameters: a statement about the handler
  holds for whatever they compute.
\<close>

record platform =
  ALCHEMY_WEBHOOK_SECRET :: "string option"
  JSON_parse :: "string \<Rightarrow> js_error + js_value"
  hmac_sha256_hex :: "string \<Rightarrow> string \<Rightarrow> js_error + string"
  Date_now :: int

record request =
  body :: string
  x_alchemy_signature :: "string option"

text \<open>\<open>crypto.timingSafeEqual\<close> on the bytes of two strings: it throws when the lengths differ.\<close>

definition timingSafeEqual :: "string \<Rightarrow> string \<Rightarrow> js_error + bool" where
  "timingSafeEqual a b =
     (if length a \<noteq> length b
      then Inl (Error ''RangeError'' ''Input buffers must have the same byte length'')
      else Inr (a = b))"

definition verifyWebhookSignature :: "platform \<Rightarrow> string \<Rightarrow> string option \<Rightarrow> js_error + bool" where
  "verifyWebhookSignature P text signature =
     (case ALCHEMY_WEBHOOK_SECRET P of
        None \<Rightarrow> Inr True
      | Some signingKey \<Rightarrow>
          if signingKey = [] then Inr True
          else
            (case signature of
               None \<Rightarrow> Inr False
             | Some claimed \<Rightarrow>
                 if claimed = [] then Inr False
                 else
                   try_catch
                     (case hmac_sha256_hex P signingKey text of
                        Inl error \<Rightarrow> Inl error
                      | Inr digest \<Rightarrow> timingSafeEqual claimed digest)
                     (\<lambda>error. Inr False)))"

text \<open>The body of the handler's \<open>try\<close>, and the handler with its \<open>catch\<close>.\<close>

definition POST_body :: "platform \<Rightarrow> store \<Rightarrow> request \<Rightarrow> (js_error + response) \<times> store" where
  "POST_body P s req =
     (case JSON_parse P (body req) of
        Inl error \<Rightarrow> (Inl error, s)
      | Inr payload \<Rightarrow>
     (case verifyWebhookSignature P (body req) (x_alchemy_signature req) of
        Inl error \<Rightarrow> (Inl error, s)
      | Inr verified \<Rightarrow>
          if \<not> verified then (Inr (errorResponse ''Invalid signature'' 401 JUndefined), s)
          else
     (case member payload ''type'' of
        Inl error \<Rightarrow> (Inl error, s)
      | Inr logged \<Rightarrow>
     (case parseAlchemyWebhook (Date_now P) payload of
        Inl error \<Rightarrow> (Inl error, s)
      | Inr None \<Rightarrow> (Inr (errorResponse ''Invalid webhook payload'' 400 JUndefined), s)
      | Inr (Some transactionData) \<Rightarrow>
     (case processTransaction s transactionData of
        (Inl error, s1) \<Rightarrow> (Inl error, s1)
      | (Inr transaction, s1) \<Rightarrow>
          (Inr (successResponse
                  (JObj [(''processed'', JBool True),
                         (''txHash'', JStr (tx_txHash transaction)),
                         (''transactionId'', JNum (int (tx_id transaction)))])
                  200), s1))))))"

definition POST :: "platform \<Rightarrow> store \<Rightarrow> request \<Rightarrow> response \<times> store" where
  "POST P s req =
     (case POST_body P s req of
        (Inl error, s1) \<Rightarrow> (handleApiError error, s1)
      | (Inr res, s1) \<Rightarrow> (res, s1))"

section \<open>A platform for the examples\<close>

text \<open>
  To run the handler on concrete requests, the examples use a reader for the part of
  the JSON grammar they need: objects, arrays, strings without escape sequences,
  integers below \<open>2^53\<close> in magnitude and the three literals, with white space between
  tokens. On a text of this part it returns the value \<open>JSON.parse\<close> returns (a repeated
  key keeps its last value); it refuses every other text. The fuel bounds the number
  of nested calls; twice the length of the text is enough.
\<close>

definition json_space :: "char \<Rightarrow> bool" where
  "json_space c = (c = CHR 0x20 \<or> c = CHR 0x09 \<or> c = CHR 0x0A \<or> c = CHR 0x0D)"

definition skip_space :: "string \<Rightarrow> string" where
  "skip_space s = dropWhile json_space s"

text \<open>The characters of a string up to its closing quote, and the text after it.\<close>

fun json_chars :: "string \<Rightarrow> (string \<times> string) option" where
  "json_chars [] = None"
| "json_chars (c # cs) =
     (if c = CHR 0x22 then Some ([], cs)
      else if c = CHR 0x5C \<or> (of_char c :: nat) < 32 then None
      else (case json_chars cs of None \<Rightarrow> None | Some (str, rest) \<Rightarrow> Some (c # str, rest)))"

definition json_int :: "string \<Rightarrow> (int \<times> string) option" where
  "json_int s =
     (let negative = (take 1 s = ''-'');
          s1 = (if negative then drop 1 s else s);
          ds = takeWhile (is_digit 10) s1;
          rest = dropWhile (is_digit 10) s1;
          n = digits_value 10 ds
      in if ds = [] \<or> (1 < length ds \<and> take 1 ds = ''0'') then None
         else if take 1 rest = ''.'' \<or> take 1 rest = ''e'' \<or> take 1 rest = ''E'' then None
         else if 2 ^ 53 \<le> n then None
         else Some (if negative then - int n else int n, rest))"

fun json_value :: "nat \<Rightarrow> string \<Rightarrow> (js_value \<times> string) option"
  and json_elements :: "nat \<Rightarrow> string \<Rightarrow> (js_value list \<times> string) option"
  and json_members :: "nat \<Rightarrow> string \<Rightarrow> ((string \<times> js_value) list \<times> string) option" where
  "json_value 0 s = None"
| "json_value (Suc n) s =
     (let t = skip_space s in
      if take 1 t = ''{'' then
        (if take 1 (skip_space (drop 1 t)) = ''}''
         then Some (JObj [], drop 1 (skip_space (drop 1 t)))
         else map_option (\<lambda>(kvs, rest). (JObj kvs, rest)) (json_members n (drop 1 t)))
      else if take 1 t = ''['' then
        (if take 1 (skip_space (drop 1 t)) = '']''
         then Some (JArr [], drop 1 (skip_space (drop 1 t)))
         else map_option (\<lambda>(vs, rest). (JArr vs, rest)) (json_elements n (drop 1 t)))
      else if take 1 t = [CHR 0x22] then
        map_option (\<lambda>(str, rest). (JStr str, rest)) (json_chars (drop 1 t))
      else if take 4 t = ''true'' then Some (JBool True, drop 4 t)
      else if take 5 t = ''false'' then Some (JBool False, drop 5 t)
      else if take 4 t = ''null'' then Some (JNull, drop 4 t)
      else map_option (\<lambda>(i, rest). (JNum i, rest)) (json_int t))"
| "json_elements 0 s = None"
| "json_elements (Suc n) s =
     (case json_value n s of
        None \<Rightarrow> None
      | Some (v, rest) \<Rightarrow>
          (let t = skip_space rest in
           if take 1 t = '','' then
             map_option (\<lambda>(vs, rest'). (v # vs, rest')) (json_elements n (drop 1 t))
           else if take 1 t = '']'' then Some ([v], drop 1 t)
           else None))"
| "json_members 0 s = None"
| "json_members (Suc n) s =
     (let t = skip_space s in
      if take 1 t \<noteq> [CHR 0x22] then None
      else
        (case json_chars (drop 1 t) of
           None \<Rightarrow> None
         | Some (key, rest) \<Rightarrow>
             (let t1 = skip_space rest in
              if take 1 t1 \<noteq> '':'' then None
              else
                (case json_value n (drop 1 t1) of
                   None \<Rightarrow> None
                 | Some (v, rest2) \<Rightarrow>
                     (let t2 = skip_space rest2 in
                      if take 1 t2 = '','' then
                        map_option
                          (\<lambda>(kvs, rest'). (if key \<in> set (map fst kvs) then kvs
                                             else (key, v) # kvs, rest'))
                          (json_members n (drop 1 t2))
                      else if take 1 t2 = ''}'' then Some ([(key, v)], drop 1 t2)
                      else None)))))"

definition read_json :: "string \<Rightarrow> js_error + js_value" where
  "read_json text =
     (case json_value (2 * length text + 2) text of
        Some (v, rest) \<Rightarrow>
          if skip_space rest = [] then Inr v
          else Inl (Error ''SyntaxError'' ''Unexpected non-whitespace character after JSON'')
      | None \<Rightarrow> Inl (Error ''SyntaxError'' ''Unexpected token in JSON''))"

text \<open>
  The example platform: a secret or none, the reader above, a clock, and a run time
  whose keyed hash is not available (every attempt to hash throws).
\<close>

definition example_platform :: "string option \<Rightarrow> int \<Rightarrow> platform" where
  "example_platform secret now =
     \<lparr>ALCHEMY_WEBHOOK_SECRET = secret,
      JSON_parse = read_json,
      hmac_sha256_hex = (\<lambda>key text. Inl (Error ''Error'' ''Invalid digest: sha256'')),
      Date_now = now\<rparr>"

definition empty_store :: store where
  "empty_store = \<lparr>users = [], transactions = []\<rparr>"

text \<open>The requests, canonical records and rows of the examples.\<close>

definition activity_entry :: "string \<Rightarrow> string \<Rightarrow> string \<Rightarrow> string \<Rightarrow> string \<Rightarrow> string \<Rightarrow> js_value" where
  "activity_entry h blockNum sender amount flag chain =
     JObj [(''hash'', JStr h), (''blockNum'', JStr blockNum),
           (''fromAddress'', JStr sender), (''toAddress'', JStr ''0xDEF''),
           (''value'', JStr amount), (''gasUsed'', JStr ''21000''),
           (''gasPrice'', JStr ''30000000000''), (''status'', JStr flag),
           (''chainId'', JStr chain)]"

definition envelope :: "js_value \<Rightarrow> js_value" where
  "envelope entry =
     JObj [(''type'', JStr ''ADDRESS_ACTIVITY''), (''event'', JObj [(''activity'', JArr [entry])])]"

definition canonical :: "string \<Rightarrow> js_number \<Rightarrow> int \<Rightarrow> string \<Rightarrow> string \<Rightarrow> provider_status \<Rightarrow> ProcessTransactionInput" where
  "canonical h blockNum now sender amount flag =
     \<lparr>txHash = JStr h, blockNumber = blockNum, timestamp = Date (JNum now),
      network = ''ethereum'', chainId = Finite 1,
      fromAddress = JStr sender, toAddress = JStr ''0xDEF'',
      value' = JStr amount, gasUsed = JStr ''21000'', gasPrice = JStr ''30000000000'',
      status = flag\<rparr>"

definition stored :: "nat \<Rightarrow> nat \<Rightarrow> string \<Rightarrow> int \<Rightarrow> int \<Rightarrow> TransactionType \<Rightarrow> TransactionStatus \<Rightarrow> string \<Rightarrow> string \<Rightarrow> transaction_row" where
  "stored i uid h blockNum now ty st sender amount =
     \<lparr>tx_id = i, tx_userId = uid, tx_txHash = h, tx_blockNumber = blockNum,
      tx_timestamp = Date (JNum now), tx_network = ''ethereum'', tx_chainId = Finite 1,
      tx_type = ty, tx_status = st, tx_fromAddress = sender, tx_toAddress = ''0xdef'',
      tx_fromTokenSymbol = ''ETH'',
      tx_fromTokenAddress = ''0x0000000000000000000000000000000000000000'',
      tx_fromTokenAmount = JStr amount, tx_fromTokenDecimals = 18,
      tx_toFiatCurrency = ''USD'', tx_toFiatAmount = 0, tx_exchangeRate = 0,
      tx_gasFeeWei = ''630000000000000'', tx_gasFeeUSD = 0, tx_platformFeeUSD = 0,
      tx_metadata = \<lparr>rawValue = JStr amount, meta_gasUsed = JStr ''21000'',
                      meta_gasPrice = JStr ''30000000000''\<rparr>\<rparr>"

definition example_body :: string where
  "example_body = ''{\"type\":\"ADDRESS_ACTIVITY\",\"event\":{\"activity\":[{\"hash\":\"0xabc\",\"blockNum\":\"0x10\",\"fromAddress\":\"0xAbC\",\"toAddress\":\"0xDEF\",\"value\":\"1000000000000000000\",\"gasUsed\":\"21000\",\"gasPrice\":\"30000000000\",\"status\":\"0x1\",\"chainId\":\"1\"}]}}''"

text \<open>A character that is visible ASCII: no white space starts or ends with one.\<close>

definition printable :: "char \<Rightarrow> bool" where
  "printable c = (32 < (of_char c :: nat) \<and> (of_char c :: nat) < 127)"

section \<open>Numerals: printing and reading back\<close>





lemma white_space_all:
  "list_all (\<lambda>w. w \<noteq> [] \<and> \<not> printable (hd w) \<and> \<not> printable (last w)) white_space"
  by (simp add: white_space_def printable_def)

lemma white_space_not_printable:
  "w \<in> set white_space \<Longrightarrow> w \<noteq> [] \<and> \<not> printable (hd w) \<and> \<not> printable (last w)"
  using white_space_all by (simp add: list_all_iff)

lemma strip_leading_none:
  "List.find (\<lambda>w. w \<noteq> [] \<and> prefix w s) ws = None \<Longrightarrow> strip_leading ws s = s"
  by (subst strip_leading.simps) simp

lemma prefix_hd: "prefix w (c # cs) \<Longrightarrow> w \<noteq> [] \<Longrightarrow> hd w = c"
  by (cases w) auto

lemma trim_start_printable:
  assumes "printable c"
  shows "trim_start (c # cs) = c # cs"
  unfolding trim_start_def
proof (rule strip_leading_none)
  have "\<not> (w \<noteq> [] \<and> prefix w (c # cs))" if "w \<in> set white_space" for w
    using white_space_not_printable [OF that] assms prefix_hd [of w c cs] by auto
  then show "List.find (\<lambda>w. w \<noteq> [] \<and> prefix w (c # cs)) white_space = None"
    by (simp add: find_None_iff)
qed

lemma trim_end_printable:
  assumes "printable c"
  shows "trim_end (cs @ [c]) = cs @ [c]"
proof -
  have "\<not> (w \<noteq> [] \<and> prefix w (c # rev cs))" if "w \<in> set (map rev white_space)" for w
  proof -
    from that obtain v where v: "v \<in> set white_space" and w: "w = rev v" by auto
    from white_space_not_printable [OF v] have "v \<noteq> []" and "\<not> printable (last v)" by simp_all
    with w have "w \<noteq> []" and "\<not> printable (hd w)" by (simp_all add: hd_rev)
    with assms prefix_hd [of w c "rev cs"] show ?thesis by auto
  qed
  then have "List.find (\<lambda>w. w \<noteq> [] \<and> prefix w (c # rev cs)) (map rev white_space) = None"
    by (simp only: find_None_iff) blast
  then have "strip_leading (map rev white_space) (c # rev cs) = c # rev cs"
    by (rule strip_leading_none)
  then show ?thesis by (simp add: trim_end_def)
qed

lemma trim_printable:
  assumes "s \<noteq> []" and "printable (hd s)" and "printable (last s)"
  shows "trim s = s"
proof -
  from assms obtain c cs where s: "s = c # cs" by (cases s) auto
  from assms obtain bs b where s': "s = bs @ [b]" by (cases s rule: rev_cases) auto
  from s assms have "trim_start s = s" by (simp add: trim_start_printable)
  moreover from s' assms have "trim_end s = s" by (simp add: trim_end_printable)
  ultimately show ?thesis by (simp add: trim_def)
qed

lemma is_digit_printable: "is_digit R c \<Longrightarrow> printable c"
  by (auto simp: is_digit_def digit_value_def printable_def Let_def split: option.splits if_splits)


lemma decimal_digit_chars:
  "is_digit 10 c \<Longrightarrow> c \<noteq> CHR ''x'' \<and> c \<noteq> CHR ''X'' \<and> c \<noteq> CHR ''o'' \<and> c \<noteq> CHR ''O'' \<and>
     c \<noteq> CHR ''b'' \<and> c \<noteq> CHR ''B'' \<and> c \<noteq> CHR ''+'' \<and> c \<noteq> CHR ''-''"
  by (auto simp: is_digit_def digit_value_def Let_def split: if_splits)

lemma StringToBigInt_digits:
  assumes "ds \<noteq> []" and "list_all (is_digit 10) ds"
  shows "StringToBigInt ds = Some (int (digits_value 10 ds))"
    and "StringToBigInt (CHR ''-'' # ds) = Some (- int (digits_value 10 ds))"
proof -
  from assms have hd: "is_digit 10 (hd ds)" and lst: "is_digit 10 (last ds)"
    by (auto simp: list_all_iff)
  then have "printable (hd ds)" "printable (last ds)"
    by (auto dest: is_digit_printable)
  with assms have t: "trim ds = ds" by (simp add: trim_printable)
  have minus: "printable CHR ''-''" by (simp add: printable_def)
  with assms \<open>printable (last ds)\<close> have t': "trim (CHR ''-'' # ds) = CHR ''-'' # ds"
    by (simp add: trim_printable)
  obtain c cs where ds: "ds = c # cs" using assms by (cases ds) auto
  with assms have c: "is_digit 10 c" by simp
  have second: "cs \<noteq> [] \<Longrightarrow> is_digit 10 (hd cs)"
    using assms ds by (cases cs) auto
  have two: "take 2 ds \<noteq> ''0x'' \<and> take 2 ds \<noteq> ''0X'' \<and> take 2 ds \<noteq> ''0o'' \<and>
             take 2 ds \<noteq> ''0O'' \<and> take 2 ds \<noteq> ''0b'' \<and> take 2 ds \<noteq> ''0B''"
  proof (cases cs)
    case Nil
    with ds show ?thesis by simp
  next
    case (Cons d rest)
    with second have "is_digit 10 d" by simp
    from decimal_digit_chars [OF this] ds Cons show ?thesis by simp
  qed
  have one: "take 1 ds \<noteq> ''+'' \<and> take 1 ds \<noteq> ''-''"
    using decimal_digit_chars [OF c] ds by simp
  from assms have lit: "unsigned_literal 10 ds = Some (int (digits_value 10 ds))"
    by (simp add: unsigned_literal_def)
  from t two one lit assms show "StringToBigInt ds = Some (int (digits_value 10 ds))"
    by (simp add: StringToBigInt_def Let_def)
  from t' lit ds show "StringToBigInt (CHR ''-'' # ds) = Some (- int (digits_value 10 ds))"
    by (simp add: StringToBigInt_def Let_def)
qed


lemma takeWhile_all: "list_all Q xs \<Longrightarrow> takeWhile Q xs = xs"
  by (induction xs) auto

lemma round_to_double_small: "n < 2 ^ 53 \<Longrightarrow> round_to_double n = n"
  by (simp add: round_to_double_def)

lemma number_of_integer_small: "n < 2 ^ 53 \<Longrightarrow> number_of_integer False n = Finite (int n)"
proof -
  assume a: "n < 2 ^ 53"
  have "(2::nat) ^ 53 \<le> 2 ^ 1024" by (rule power_increasing) simp_all
  with a have "\<not> 2 ^ 1024 \<le> n" by linarith
  with a show ?thesis by (simp add: number_of_integer_def round_to_double_small)
qed

lemma parseInt_string_plain:
  assumes "trim_start s = s" and "take 1 s \<noteq> ''+''" and "take 1 s \<noteq> ''-''"
    and "take 2 s \<noteq> ''0x''" and "take 2 s \<noteq> ''0X''"
    and "list_all (is_digit 10) s" and "s \<noteq> []"
  shows "parseInt_string s 0 = number_of_integer False (digits_value 10 s)"
  using assms by (simp add: parseInt_string_def Let_def takeWhile_all)

lemma parseInt_string_prefixed:
  assumes "trim_start s = s" and "take 1 s \<noteq> ''+''" and "take 1 s \<noteq> ''-''"
    and "take 2 s = ''0x''"
    and "list_all (is_digit 16) (drop 2 s)" and "drop 2 s \<noteq> []"
  shows "parseInt_string s 16 = number_of_integer False (digits_value 16 (drop 2 s))"
  using assms by (simp add: parseInt_string_def Let_def takeWhile_all)



lemma parseInt_string_hex_digits:
  assumes "list_all (is_digit 16) ds" and "ds \<noteq> []"
  shows "parseInt_string (CHR ''0'' # CHR ''x'' # ds) 16 = number_of_integer False (digits_value 16 ds)"
proof -
  have z: "printable CHR ''0''" by (simp add: printable_def)
  have "parseInt_string (CHR ''0'' # CHR ''x'' # ds) 16 =
        number_of_integer False (digits_value 16 (drop 2 (CHR ''0'' # CHR ''x'' # ds)))"
    by (rule parseInt_string_prefixed) (use assms trim_start_printable [OF z] in simp_all)
  then show ?thesis by simp
qed

lemma parseInt_string_decimal_digits:
  assumes "list_all (is_digit 10) (c # cs)"
  shows "parseInt_string (c # cs) 0 = number_of_integer False (digits_value 10 (c # cs))"
proof (rule parseInt_string_plain)
  from assms have c: "is_digit 10 c" by simp
  then have "printable c" by (rule is_digit_printable)
  then show "trim_start (c # cs) = c # cs" by (rule trim_start_printable)
  show "take 1 (c # cs) \<noteq> ''+''" "take 1 (c # cs) \<noteq> ''-''"
    using decimal_digit_chars [OF c] by simp_all
  have "take 2 (c # cs) \<noteq> ''0x'' \<and> take 2 (c # cs) \<noteq> ''0X''"
  proof (cases cs)
    case Nil
    then show ?thesis by simp
  next
    case (Cons d rest)
    with assms have "is_digit 10 d" by simp
    from decimal_digit_chars [OF this] Cons show ?thesis by simp
  qed
  then show "take 2 (c # cs) \<noteq> ''0x''" "take 2 (c # cs) \<noteq> ''0X''" by simp_all
  show "list_all (is_digit 10) (c # cs)" by (rule assms)
qed simp

section \<open>The store and the processor\<close>

lemma find_append_new:
  "List.find Q xs = None \<Longrightarrow> Q t \<Longrightarrow> List.find Q (xs @ [t]) = Some t"
  by (induction xs) (auto split: if_splits)

lemma find_hash_None:
  "(List.find (\<lambda>t. tx_txHash t = h) ts = None) = (h \<notin> set (map tx_txHash ts))"
  by (induction ts) auto

lemma find_hash_Some:
  "List.find (\<lambda>t. tx_txHash t = h) ts = Some t \<Longrightarrow> t \<in> set ts \<and> tx_txHash t = h"
  by (induction ts) (auto split: if_splits)

lemma filter_hash_distinct:
  "distinct (map tx_txHash ts) \<Longrightarrow> t \<in> set ts \<Longrightarrow>
     filter (\<lambda>x. tx_txHash x = tx_txHash t) ts = [t]"
proof (induction ts)
  case Nil
  then show ?case by simp
next
  case (Cons a ts)
  show ?case
  proof (cases "a = t")
    case True
    with Cons.prems have "tx_txHash t \<notin> tx_txHash ` set ts" by simp
    then have "\<And>x. x \<in> set ts \<Longrightarrow> tx_txHash x \<noteq> tx_txHash t"
      by (metis imageI)
    then have "filter (\<lambda>x. tx_txHash x = tx_txHash t) ts = []"
      by (simp add: filter_empty_conv)
    with True show ?thesis by simp
  next
    case False
    with Cons.prems have "t \<in> set ts" and "tx_txHash a \<noteq> tx_txHash t"
      by (auto simp: image_iff)
    with Cons show ?thesis by simp
  qed
qed

lemma transaction_findUnique_cases:
  "transaction_findUnique s h = Inr r \<Longrightarrow>
     \<exists>hash. h = JStr hash \<and> r = List.find (\<lambda>t. tx_txHash t = hash) (transactions s)"
  by (auto simp: transaction_findUnique_def split: js_value.splits)

lemma transaction_create_Inr:
  "transaction_create s d = (Inr t, s1) \<Longrightarrow>
     tx_txHash d \<notin> set (map tx_txHash (transactions s)) \<and>
     t = d\<lparr>tx_id := fresh_id (map tx_id (transactions s))\<rparr> \<and>
     s1 = s\<lparr>transactions := transactions s @ [t]\<rparr>"
  by (auto simp: transaction_create_def Let_def split: if_splits)

lemma find_or_create_user:
  assumes "(case user_findUnique s a of Some found \<Rightarrow> (Inr found, s)
            | None \<Rightarrow> user_create s a USER) = (r, s1)"
  shows "transactions s1 = transactions s"
    and "\<exists>u. r = Inr u \<and> user_findUnique s1 a = Some u \<and>
           (case user_findUnique s a of
              None \<Rightarrow> users s1 = users s @ [u] \<and> walletAddress u = a \<and> role u = USER
            | Some existing \<Rightarrow> users s1 = users s \<and> u = existing)"
proof -
  show "transactions s1 = transactions s"
    using assms by (auto simp: user_create_def Let_def split: option.splits if_splits)
  show "\<exists>u. r = Inr u \<and> user_findUnique s1 a = Some u \<and>
           (case user_findUnique s a of
              None \<Rightarrow> users s1 = users s @ [u] \<and> walletAddress u = a \<and> role u = USER
            | Some existing \<Rightarrow> users s1 = users s \<and> u = existing)"
  proof (cases "user_findUnique s a")
    case None
    then have notin: "a \<notin> set (map walletAddress (users s))"
      by (auto simp: user_findUnique_def find_None_iff)
    define u where "u = \<lparr>user_id = fresh_id (map user_id (users s)), walletAddress = a, role = USER\<rparr>"
    from None notin assms have r: "r = Inr u" and s1: "s1 = s\<lparr>users := users s @ [u]\<rparr>"
      by (auto simp: user_create_def Let_def u_def)
    from None have "List.find (\<lambda>x. walletAddress x = a) (users s @ [u]) = Some u"
      by (intro find_append_new) (auto simp: user_findUnique_def u_def)
    with r s1 None show ?thesis
      by (auto simp: user_findUnique_def u_def)
  next
    case (Some existing)
    with assms show ?thesis by auto
  qed
qed

lemma processTransaction_existing:
  "transaction_findUnique s (txHash input) = Inr (Some t) \<Longrightarrow>
     processTransaction s input = (Inr t, s)"
  by (simp add: processTransaction_def)

lemma processTransaction_new:
  assumes "processTransaction s input = (Inr t, s1)"
    and "transaction_findUnique s (txHash input) = Inr None"
  shows "\<exists>ty used price address user s0 block recipient.
      determineTransactionType input = Inr ty \<and>
      BigInt (gasUsed input) = Inr used \<and>
      BigInt (gasPrice input) = Inr price \<and>
      call_toLowerCase (fromAddress input) = Inr address \<and>
      (case user_findUnique s address of Some found \<Rightarrow> (Inr found, s)
         | None \<Rightarrow> user_create s address USER) = (Inr user, s0) \<and>
      BigInt_number (blockNumber input) = Inr block \<and>
      call_toLowerCase (toAddress input) = Inr recipient \<and>
      string_of (txHash input) \<notin> set (map tx_txHash (transactions s0)) \<and>
      s1 = s0\<lparr>transactions := transactions s0 @ [t]\<rparr> \<and>
      t = \<lparr>tx_id = fresh_id (map tx_id (transactions s0)),
             tx_userId = user_id user,
             tx_txHash = string_of (txHash input),
             tx_blockNumber = block,
             tx_timestamp = timestamp input,
             tx_network = network input,
             tx_chainId = chainId input,
             tx_type = ty,
             tx_status = (if status input = success then COMPLETED else FAILED),
             tx_fromAddress = address,
             tx_toAddress = recipient,
             tx_fromTokenSymbol = ''ETH'',
             tx_fromTokenAddress = ''0x0000000000000000000000000000000000000000'',
             tx_fromTokenAmount = value' input,
             tx_fromTokenDecimals = 18,
             tx_toFiatCurrency = ''USD'',
             tx_toFiatAmount = 0,
             tx_exchangeRate = 0,
             tx_gasFeeWei = bigint_to_string (used * price),
             tx_gasFeeUSD = 0,
             tx_platformFeeUSD = 0,
             tx_metadata = \<lparr>rawValue = value' input, meta_gasUsed = gasUsed input,
                             meta_gasPrice = gasPrice input\<rparr>\<rparr>"
  using assms
  by (auto simp: processTransaction_def Let_def split: sum.splits prod.splits
           dest!: transaction_create_Inr)

text \<open>What a successful call leaves: the returned row is the row found under its hash.\<close>

lemma processTransaction_Inr:
  assumes "processTransaction s input = (Inr t, s1)"
  shows "txHash input = JStr (tx_txHash t)"
    and "List.find (\<lambda>x. tx_txHash x = tx_txHash t) (transactions s1) = Some t"
    and "transactions s1 = transactions s \<or>
         (tx_txHash t \<notin> set (map tx_txHash (transactions s)) \<and>
          transactions s1 = transactions s @ [t])"
proof -
  from assms obtain r where fu: "transaction_findUnique s (txHash input) = Inr r"
    by (auto simp: processTransaction_def split: sum.splits)
  then obtain h where h: "txHash input = JStr h"
    and r: "r = List.find (\<lambda>t. tx_txHash t = h) (transactions s)"
    using transaction_findUnique_cases by blast
  have "tx_txHash t = h \<and>
        List.find (\<lambda>x. tx_txHash x = h) (transactions s1) = Some t \<and>
        (transactions s1 = transactions s \<or>
         (h \<notin> set (map tx_txHash (transactions s)) \<and> transactions s1 = transactions s @ [t]))"
  proof (cases r)
    case (Some existing)
    with fu assms have "t = existing" "s1 = s"
      by (simp_all add: processTransaction_existing)
    with Some r show ?thesis
      by (auto dest: find_hash_Some)
  next
    case None
    with fu have new: "transaction_findUnique s (txHash input) = Inr None" by simp
    from processTransaction_new [OF assms new] obtain user s0 a where
      fc: "(case user_findUnique s a of Some found \<Rightarrow> (Inr found, s)
            | None \<Rightarrow> user_create s a USER) = (Inr user, s0)"
      and n0: "string_of (txHash input) \<notin> set (map tx_txHash (transactions s0))"
      and s10: "s1 = s0\<lparr>transactions := transactions s0 @ [t]\<rparr>"
      and th: "tx_txHash t = string_of (txHash input)"
      by auto
    from find_or_create_user(1) [OF fc] have ts0: "transactions s0 = transactions s" .
    from n0 s10 th ts0 h
    have notin: "h \<notin> set (map tx_txHash (transactions s))"
      and t: "tx_txHash t = h"
      and s1: "transactions s1 = transactions s @ [t]"
      by (auto simp: string_of_def)
    from None r have "List.find (\<lambda>x. tx_txHash x = h) (transactions s) = None" by simp
    from find_append_new [OF this, of t] t s1
    have "List.find (\<lambda>x. tx_txHash x = h) (transactions s1) = Some t" by simp
    with notin t s1 show ?thesis by simp
  qed
  with h show "txHash input = JStr (tx_txHash t)"
    and "List.find (\<lambda>x. tx_txHash x = tx_txHash t) (transactions s1) = Some t"
    and "transactions s1 = transactions s \<or>
         (tx_txHash t \<notin> set (map tx_txHash (transactions s)) \<and>
          transactions s1 = transactions s @ [t])"
    by auto
qed

section \<open>The parser and the handler\<close>

lemma verifyWebhookSignature_Date_now [simp]:
  "verifyWebhookSignature (P\<lparr>Date_now := n\<rparr>) text signature = verifyWebhookSignature P text signature"
  by (simp add: verifyWebhookSignature_def split: option.splits)

lemma parseAlchemyWebhook_total:
  "\<exists>r. parseAlchemyWebhook now payload = Inr r"
  by (simp add: parseAlchemyWebhook_def try_catch_def split: sum.splits)

lemma parseAlchemyWebhook_Some:
  assumes "parseAlchemyWebhook now payload = Inr (Some input)"
  shows "\<exists>tx blockNum date chain networkName.
      first_activity payload = Inr tx \<and> truthy tx \<and>
      parseInt (field tx ''blockNum'') 16 = Inr blockNum \<and>
      new_Date (or_else (field tx ''timestamp'') (JNum now)) = Inr date \<and>
      parseInt (or_else (field tx ''chainId'') (JStr ''1'')) 0 = Inr chain \<and>
      getNetworkFromChainId chain = Inr networkName \<and>
      input = \<lparr>txHash = field tx ''hash'',
             blockNumber = blockNum,
             timestamp = date,
             network = networkName,
             chainId = chain,
             fromAddress = field tx ''fromAddress'',
             toAddress = field tx ''toAddress'',
             value' = or_else (field tx ''value'') (JStr ''0''),
             gasUsed = or_else (field tx ''gasUsed'') (JStr ''0''),
             gasPrice = or_else (field tx ''gasPrice'') (JStr ''0''),
             status = (if field tx ''status'' = JStr ''0x1'' then success else failed)\<rparr>"
  using assms
  by (auto simp: parseAlchemyWebhook_def parseAlchemyWebhook_body_def try_catch_def Let_def
           split: sum.splits if_splits)

lemma new_Date_or_now:
  "new_Date (or_else v (JNum n)) = Inr d \<Longrightarrow> \<exists>d'. new_Date (or_else v (JNum n')) = Inr d'"
  by (cases v) (auto simp: or_else_def)

lemma parseAlchemyWebhook_clock:
  assumes "parseAlchemyWebhook now payload = Inr (Some input)"
  shows "\<exists>d. parseAlchemyWebhook now' payload = Inr (Some (input\<lparr>timestamp := d\<rparr>))"
proof -
  from parseAlchemyWebhook_Some [OF assms] obtain tx blockNum date chain networkName where
    a: "first_activity payload = Inr tx" "truthy tx"
      "parseInt (field tx ''blockNum'') 16 = Inr blockNum"
      "parseInt (or_else (field tx ''chainId'') (JStr ''1'')) 0 = Inr chain"
      "getNetworkFromChainId chain = Inr networkName"
    and d: "new_Date (or_else (field tx ''timestamp'') (JNum now)) = Inr date"
    and i: "input = \<lparr>txHash = field tx ''hash'',
             blockNumber = blockNum,
             timestamp = date,
             network = networkName,
             chainId = chain,
             fromAddress = field tx ''fromAddress'',
             toAddress = field tx ''toAddress'',
             value' = or_else (field tx ''value'') (JStr ''0''),
             gasUsed = or_else (field tx ''gasUsed'') (JStr ''0''),
             gasPrice = or_else (field tx ''gasPrice'') (JStr ''0''),
             status = (if field tx ''status'' = JStr ''0x1'' then success else failed)\<rparr>"
    by blast
  from new_Date_or_now [OF d] obtain d' where
    "new_Date (or_else (field tx ''timestamp'') (JNum now')) = Inr d'" by blast
  with a i have "parseAlchemyWebhook now' payload = Inr (Some (input\<lparr>timestamp := d'\<rparr>))"
    by (simp add: parseAlchemyWebhook_def parseAlchemyWebhook_body_def try_catch_def Let_def)
  then show ?thesis by blast
qed

text \<open>The answers of the handler, by the step that produced them.\<close>

lemma POST_200:
  assumes "POST P s req = (res, s1)" and "http_status res = 200"
  shows "\<exists>payload logged input t.
      JSON_parse P (body req) = Inr payload \<and>
      verifyWebhookSignature P (body req) (x_alchemy_signature req) = Inr True \<and>
      member payload ''type'' = Inr logged \<and>
      parseAlchemyWebhook (Date_now P) payload = Inr (Some input) \<and>
      processTransaction s input = (Inr t, s1) \<and>
      res = successResponse
              (JObj [(''processed'', JBool True),
                     (''txHash'', JStr (tx_txHash t)),
                     (''transactionId'', JNum (int (tx_id t)))]) 200"
  using assms
  by (auto simp: POST_def POST_body_def handleApiError_def errorResponse_def
           split: sum.splits option.splits prod.splits if_splits js_error.splits)

lemma POST_success:
  assumes "JSON_parse P (body req) = Inr payload"
    and "verifyWebhookSignature P (body req) (x_alchemy_signature req) = Inr True"
    and "member payload ''type'' = Inr logged"
    and "parseAlchemyWebhook (Date_now P) payload = Inr (Some input)"
    and "processTransaction s input = (Inr t, s1)"
  shows "POST P s req =
      (successResponse
         (JObj [(''processed'', JBool True),
                (''txHash'', JStr (tx_txHash t)),
                (''transactionId'', JNum (int (tx_id t)))]) 200, s1)"
  using assms by (simp add: POST_def POST_body_def)





lemma member_not_nullish:
  "\<not> nullish payload \<Longrightarrow> \<exists>v. member payload name = Inr v"
  by (cases payload) (auto simp: nullish_def)

lemma POST_no_data:
  assumes "JSON_parse P (body req) = Inr payload"
    and "verifyWebhookSignature P (body req) (x_alchemy_signature req) = Inr True"
    and "member payload ''type'' = Inr logged"
    and "parseAlchemyWebhook (Date_now P) payload = Inr None"
  shows "POST P s req = (errorResponse ''Invalid webhook payload'' 400 JUndefined, s)"
  using assms by (simp add: POST_def POST_body_def)

lemma parseAlchemyWebhook_no_activity:
  "first_activity payload = Inr a \<Longrightarrow> \<not> truthy a \<Longrightarrow> parseAlchemyWebhook now payload = Inr None"
  by (simp add: parseAlchemyWebhook_def parseAlchemyWebhook_body_def try_catch_def)

lemma parseAlchemyWebhook_throw:
  "first_activity payload = Inl error \<Longrightarrow> parseAlchemyWebhook now payload = Inr None"
  by (simp add: parseAlchemyWebhook_def parseAlchemyWebhook_body_def try_catch_def)

lemma POST_rejected:
  assumes "JSON_parse P (body req) = Inr payload"
    and "verifyWebhookSignature P (body req) (x_alchemy_signature req) = Inr False"
  shows "POST P s req = (errorResponse ''Invalid signature'' 401 JUndefined, s)"
  using assms by (simp add: POST_def POST_body_def)

lemma POST_parse_error:
  assumes "JSON_parse P (body req) = Inl error"
  shows "POST P s req = (handleApiError error, s)"
  using assms by (simp add: POST_def POST_body_def)

lemma verifyWebhookSignature_bad:
  assumes "ALCHEMY_WEBHOOK_SECRET P = Some key" and "key \<noteq> []"
    and "signature = None \<or> signature = Some [] \<or>
         (\<exists>claimed. signature = Some claimed \<and> hmac_sha256_hex P key text \<noteq> Inr claimed)"
  shows "verifyWebhookSignature P text signature = Inr False"
  using assms
  by (auto simp: verifyWebhookSignature_def try_catch_def timingSafeEqual_def
           split: option.splits sum.splits)

text \<open>
  A payload other than \<open>null\<close> and \<open>undefined\<close> that has no first activity entry: the
  parser returns the "no data" result and never throws, and a request that passed
  the signature check is answered 400 with the store left as it was.
\<close>

lemma POST_no_activity:
  assumes "\<not> nullish payload"
    and "\<forall>a. first_activity payload = Inr a \<longrightarrow> \<not> truthy a"
  shows "parseAlchemyWebhook now payload = Inr None"
    and "JSON_parse P (body req) = Inr payload \<Longrightarrow>
         verifyWebhookSignature P (body req) (x_alchemy_signature req) = Inr True \<Longrightarrow>
         POST P s req = (errorResponse ''Invalid webhook payload'' 400 JUndefined, s)"
proof -
  have none: "parseAlchemyWebhook n payload = Inr None" for n
    using assms(2)
    by (cases "first_activity payload")
       (auto simp: parseAlchemyWebhook_throw parseAlchemyWebhook_no_activity)
  then show "parseAlchemyWebhook now payload = Inr None" .
  from member_not_nullish [OF assms(1)] obtain logged where
    lg: "member payload ''type'' = Inr logged" by blast
  assume "JSON_parse P (body req) = Inr payload"
    and "verifyWebhookSignature P (body req) (x_alchemy_signature req) = Inr True"
  then show "POST P s req = (errorResponse ''Invalid webhook payload'' 400 JUndefined, s)"
    using lg none by (rule POST_no_data)
qed

section \<open>The examples, evaluated\<close>

lemma example_numbers:
  "StringToBigInt ''1000000000000000000'' = Some 1000000000000000000"
  "StringToBigInt ''21000'' = Some 21000"
  "StringToBigInt ''30000000000'' = Some 30000000000"
  "StringToBigInt ''0'' = Some 0"
  by (simp_all add: StringToBigInt_digits is_digit_def digit_value_def digits_value_def)

lemma example_fee: "bigint_to_string 630000000000000 = ''630000000000000''"
  "bigint_to_string 0 = ''0''"
  by (simp_all add: bigint_to_string_def to_radix.simps digit_char_def char_of_eq_iff)

lemma example_addresses: "toLowerCase ''0xAbC'' = ''0xabc''" "toLowerCase ''0xDEF'' = ''0xdef''"
  "toLowerCase ''0xABC'' = ''0xabc''"
  by (simp_all add: toLowerCase_def lower_char_def char_of_eq_iff)

lemma example_parseInt: "parseInt_string ''0x10'' 16 = Finite 16"
  by (simp_all add: parseInt_string_hex_digits is_digit_def digit_value_def digits_value_def
       number_of_integer_small)

lemma example_chain: "parseInt_string ''1'' 0 = Finite 1" "parseInt_string ''5'' 0 = Finite 5"
  by (simp_all add: parseInt_string_decimal_digits is_digit_def digit_value_def digits_value_def
       number_of_integer_small)

lemma example_network: "getNetworkFromChainId (Finite 1) = Inr ''ethereum''"
  by (simp add: getNetworkFromChainId_def NETWORK_CONFIG_def)



lemma parse_example:
  "parseInt_string blockNum 16 = x \<Longrightarrow> amount \<noteq> [] \<Longrightarrow>
   parseAlchemyWebhook now (envelope (activity_entry h blockNum sender amount flag ''1'')) =
   Inr (Some (canonical h x now sender amount (if flag = ''0x1'' then success else failed)))"
  by (simp add: parseAlchemyWebhook_def parseAlchemyWebhook_body_def try_catch_def
       first_activity_def envelope_def activity_entry_def nullish_def
       parseInt_def field_def or_else_def example_chain example_network canonical_def)

lemma process_example_1:
  "processTransaction empty_store
     (canonical ''0xabc'' (Finite n) now ''0xAbC'' ''1000000000000000000'' success) =
   (Inr (stored 1 1 ''0xabc'' n now TRANSFER COMPLETED ''0xabc'' ''1000000000000000000''),
    \<lparr>users = [\<lparr>user_id = 1, walletAddress = ''0xabc'', role = USER\<rparr>],
     transactions = [stored 1 1 ''0xabc'' n now TRANSFER COMPLETED ''0xabc'' ''1000000000000000000'']\<rparr>)"
  by (simp add: processTransaction_def canonical_def empty_store_def transaction_findUnique_def
       determineTransactionType_def BigInt_string_def example_numbers example_fee
       example_addresses user_findUnique_def user_create_def transaction_create_def
       fresh_id_def string_of_def stored_def Let_def)



lemma read_example_body:
  "read_json example_body =
     Inr (envelope (activity_entry ''0xabc'' ''0x10'' ''0xAbC'' ''1000000000000000000'' ''0x1'' ''1''))"
  by code_simp

lemma read_small:
  "read_json ''not json'' = Inl (Error ''SyntaxError'' ''Unexpected token in JSON'')"
  "read_json ''{}'' = Inr (JObj [])"
  "read_json ''null'' = Inr JNull"
  "read_json ''{'' = Inl (Error ''SyntaxError'' ''Unexpected token in JSON'')"
  by code_simp+


section \<open>The claims\<close>

text \<open>
  Claim C1. Ingestion is idempotent on the transaction hash. If the store already holds
  a transaction with hash \<open>h\<close>, \<open>processTransaction\<close> on a canonical record with that
  hash returns the first-seen row and leaves the store as it was: no row is added and
  no field is written. When a delivery of an envelope is answered 200, the store then
  holds exactly one row with the reported hash, and delivering the same request again
  (at any later clock reading) gives the same response, with the same
  \<open>transactionId\<close>, and the same store.
\<close>

theorem C1_idempotent_ingestion:
  "(h \<in> set (map tx_txHash (transactions s)) \<and> txHash input = JStr h \<longrightarrow>
      (\<exists>t. List.find (\<lambda>x. tx_txHash x = h) (transactions s) = Some t \<and>
           processTransaction s input = (Inr t, s))) \<and>
   (distinct (map tx_txHash (transactions s)) \<and> POST P s req = (res, s1) \<and>
    http_status res = 200 \<longrightarrow>
      (\<exists>t. json res =
             JObj [(''success'', JBool True),
                   (''data'', JObj [(''processed'', JBool True),
                                    (''txHash'', JStr (tx_txHash t)),
                                    (''transactionId'', JNum (int (tx_id t)))])] \<and>
           filter (\<lambda>x. tx_txHash x = tx_txHash t) (transactions s1) = [t] \<and>
           (\<forall>now'. POST (P\<lparr>Date_now := now'\<rparr>) s1 req = (res, s1))))"
proof (intro conjI impI)
  assume a: "h \<in> set (map tx_txHash (transactions s)) \<and> txHash input = JStr h"
  then obtain t where t: "List.find (\<lambda>x. tx_txHash x = h) (transactions s) = Some t"
    using find_hash_None [of h "transactions s"] by (cases "List.find (\<lambda>x. tx_txHash x = h) (transactions s)") auto
  with a have "transaction_findUnique s (txHash input) = Inr (Some t)"
    by (simp add: transaction_findUnique_def)
  then have "processTransaction s input = (Inr t, s)"
    by (rule processTransaction_existing)
  with t show "\<exists>t. List.find (\<lambda>x. tx_txHash x = h) (transactions s) = Some t \<and>
           processTransaction s input = (Inr t, s)" by blast
next
  assume b: "distinct (map tx_txHash (transactions s)) \<and> POST P s req = (res, s1) \<and>
    http_status res = 200"
  then have dist: "distinct (map tx_txHash (transactions s))"
    and post: "POST P s req = (res, s1)" and ok: "http_status res = 200" by simp_all
  from POST_200 [OF post ok] obtain payload logged input t where
    jp: "JSON_parse P (body req) = Inr payload"
    and vf: "verifyWebhookSignature P (body req) (x_alchemy_signature req) = Inr True"
    and lg: "member payload ''type'' = Inr logged"
    and pa: "parseAlchemyWebhook (Date_now P) payload = Inr (Some input)"
    and pr: "processTransaction s input = (Inr t, s1)"
    and res: "res = successResponse
              (JObj [(''processed'', JBool True),
                     (''txHash'', JStr (tx_txHash t)),
                     (''transactionId'', JNum (int (tx_id t)))]) 200"
    by blast
  have found: "List.find (\<lambda>x. tx_txHash x = tx_txHash t) (transactions s1) = Some t"
    by (rule processTransaction_Inr(2) [OF pr])
  have dist1: "distinct (map tx_txHash (transactions s1))"
    using processTransaction_Inr(3) [OF pr] dist by auto
  have one: "filter (\<lambda>x. tx_txHash x = tx_txHash t) (transactions s1) = [t]"
    using filter_hash_distinct [OF dist1] find_hash_Some [OF found] by blast
  have again: "POST (P\<lparr>Date_now := now'\<rparr>) s1 req = (res, s1)" for now'
  proof -
    from parseAlchemyWebhook_clock [OF pa] obtain d where
      pa': "parseAlchemyWebhook now' payload = Inr (Some (input\<lparr>timestamp := d\<rparr>))" by blast
    have "txHash (input\<lparr>timestamp := d\<rparr>) = JStr (tx_txHash t)"
      using processTransaction_Inr(1) [OF pr] by simp
    with found have "transaction_findUnique s1 (txHash (input\<lparr>timestamp := d\<rparr>)) = Inr (Some t)"
      by (simp add: transaction_findUnique_def)
    then have "processTransaction s1 (input\<lparr>timestamp := d\<rparr>) = (Inr t, s1)"
      by (rule processTransaction_existing)
    with jp vf lg pa' res show ?thesis
      by (simp add: POST_def POST_body_def)
  qed
  from res one again
  show "\<exists>t. json res =
             JObj [(''success'', JBool True),
                   (''data'', JObj [(''processed'', JBool True),
                                    (''txHash'', JStr (tx_txHash t)),
                                    (''transactionId'', JNum (int (tx_id t)))])] \<and>
           filter (\<lambda>x. tx_txHash x = tx_txHash t) (transactions s1) = [t] \<and>
           (\<forall>now'. POST (P\<lparr>Date_now := now'\<rparr>) s1 req = (res, s1))"
    by (auto simp: successResponse_def)
qed

theorem C1_idempotent_ingestion_witness:
  "http_status (fst (POST (example_platform None 1700000000000) empty_store
      \<lparr>body = example_body, x_alchemy_signature = None\<rparr>)) = 200 \<and>
   POST (example_platform None 1700000060000)
      (snd (POST (example_platform None 1700000000000) empty_store
         \<lparr>body = example_body, x_alchemy_signature = None\<rparr>))
      \<lparr>body = example_body, x_alchemy_signature = None\<rparr> =
   POST (example_platform None 1700000000000) empty_store
      \<lparr>body = example_body, x_alchemy_signature = None\<rparr> \<and>
   length (transactions (snd (POST (example_platform None 1700000000000) empty_store
      \<lparr>body = example_body, x_alchemy_signature = None\<rparr>))) = 1"
proof -
  let ?P = "example_platform None 1700000000000"
  let ?req = "\<lparr>body = example_body, x_alchemy_signature = None\<rparr>"
  let ?row = "stored 1 1 ''0xabc'' 16 1700000000000 TRANSFER COMPLETED ''0xabc'' ''1000000000000000000''"
  let ?s1 = "\<lparr>users = [\<lparr>user_id = 1, walletAddress = ''0xabc'', role = USER\<rparr>],
              transactions = [?row]\<rparr>"
  let ?res = "successResponse
         (JObj [(''processed'', JBool True),
                (''txHash'', JStr (tx_txHash ?row)),
                (''transactionId'', JNum (int (tx_id ?row)))]) 200"
  have first: "POST ?P empty_store ?req = (?res, ?s1)"
    by (rule POST_success [where payload = "envelope (activity_entry ''0xabc'' ''0x10'' ''0xAbC'' ''1000000000000000000'' ''0x1'' ''1'')"
          and logged = "JStr ''ADDRESS_ACTIVITY''"
          and input = "canonical ''0xabc'' (Finite 16) 1700000000000 ''0xAbC'' ''1000000000000000000'' success"])
       (simp_all add: example_platform_def read_example_body verifyWebhookSignature_def
          envelope_def example_parseInt
          parse_example [of "''0x10''" "Finite 16" "''1000000000000000000''", unfolded envelope_def]
          process_example_1)
  have ok: "http_status ?res = 200" by (simp add: successResponse_def)
  have "distinct (map tx_txHash (transactions empty_store))" by (simp add: empty_store_def)
  with C1_idempotent_ingestion [where s = empty_store and P = "?P" and req = "?req"
      and res = "?res" and ?s1.0 = "?s1"] first ok
  have "\<forall>now'. POST (?P\<lparr>Date_now := now'\<rparr>) ?s1 ?req = (?res, ?s1)"
    by blast
  then have "POST (?P\<lparr>Date_now := 1700000060000\<rparr>) ?s1 ?req = (?res, ?s1)" by blast
  moreover have "?P\<lparr>Date_now := 1700000060000\<rparr> = example_platform None 1700000060000"
    by (simp add: example_platform_def)
  ultimately show ?thesis using first ok by simp
qed





text \<open>
  Claim C4, as amended. The handler parses the body before it checks the signature.
  With a signing secret configured, a request whose signature header is missing or
  empty, or is not the keyed hash of the raw body, never changes the store; when its
  body is valid JSON it is answered 401 with the error \<open>Invalid signature\<close>; when its
  body is not valid JSON it is answered by the error handler with the parse error
  (500), the signature never being looked at.
\<close>

theorem C4_bad_signature:
  "ALCHEMY_WEBHOOK_SECRET P = Some key \<and> key \<noteq> [] \<and>
   (x_alchemy_signature req = None \<or> x_alchemy_signature req = Some [] \<or>
    (\<exists>claimed. x_alchemy_signature req = Some claimed \<and>
       hmac_sha256_hex P key (body req) \<noteq> Inr claimed)) \<longrightarrow>
     snd (POST P s req) = s \<and>
     (\<forall>payload. JSON_parse P (body req) = Inr payload \<longrightarrow>
        POST P s req = (errorResponse ''Invalid signature'' 401 JUndefined, s)) \<and>
     (\<forall>error. JSON_parse P (body req) = Inl error \<longrightarrow>
        POST P s req = (handleApiError error, s))"
proof
  assume a: "ALCHEMY_WEBHOOK_SECRET P = Some key \<and> key \<noteq> [] \<and>
   (x_alchemy_signature req = None \<or> x_alchemy_signature req = Some [] \<or>
    (\<exists>claimed. x_alchemy_signature req = Some claimed \<and>
       hmac_sha256_hex P key (body req) \<noteq> Inr claimed))"
  then have bad: "verifyWebhookSignature P (body req) (x_alchemy_signature req) = Inr False"
    by (intro verifyWebhookSignature_bad [of P key]) auto
  have valid: "POST P s req = (errorResponse ''Invalid signature'' 401 JUndefined, s)"
    if "JSON_parse P (body req) = Inr payload" for payload
    using that bad by (rule POST_rejected)
  have invalid: "POST P s req = (handleApiError error, s)"
    if "JSON_parse P (body req) = Inl error" for error
    using that by (rule POST_parse_error)
  have "snd (POST P s req) = s"
    using valid invalid by (cases "JSON_parse P (body req)") auto
  with valid invalid show "snd (POST P s req) = s \<and>
     (\<forall>payload. JSON_parse P (body req) = Inr payload \<longrightarrow>
        POST P s req = (errorResponse ''Invalid signature'' 401 JUndefined, s)) \<and>
     (\<forall>error. JSON_parse P (body req) = Inl error \<longrightarrow>
        POST P s req = (handleApiError error, s))"
    by blast
qed

theorem C4_bad_signature_witness:
  "POST (example_platform (Some ''whsec_test'') 0) empty_store
     \<lparr>body = ''{}'', x_alchemy_signature = None\<rparr> =
     (errorResponse ''Invalid signature'' 401 JUndefined, empty_store) \<and>
   POST (example_platform (Some ''whsec_test'') 0) empty_store
     \<lparr>body = ''{}'', x_alchemy_signature = Some ''abc''\<rparr> =
     (errorResponse ''Invalid signature'' 401 JUndefined, empty_store)"
proof -
  let ?P = "example_platform (Some ''whsec_test'') 0"
  have k: "ALCHEMY_WEBHOOK_SECRET ?P = Some ''whsec_test''"
    and h: "hmac_sha256_hex ?P ''whsec_test'' ''{}'' \<noteq> Inr ''abc''"
    and j: "JSON_parse ?P ''{}'' = Inr (JObj [])"
    by (simp_all add: example_platform_def read_small)
  from C4_bad_signature [of ?P "''whsec_test''" "\<lparr>body = ''{}'', x_alchemy_signature = None\<rparr>" empty_store] k j
  have "POST ?P empty_store \<lparr>body = ''{}'', x_alchemy_signature = None\<rparr> =
     (errorResponse ''Invalid signature'' 401 JUndefined, empty_store)" by simp
  moreover
  from C4_bad_signature [of ?P "''whsec_test''" "\<lparr>body = ''{}'', x_alchemy_signature = Some ''abc''\<rparr>" empty_store] k j h
  have "POST ?P empty_store \<lparr>body = ''{}'', x_alchemy_signature = Some ''abc''\<rparr> =
     (errorResponse ''Invalid signature'' 401 JUndefined, empty_store)" by simp
  ultimately show ?thesis by simp
qed

theorem C4_counterexample:
  "ALCHEMY_WEBHOOK_SECRET (example_platform (Some ''whsec_test'') 0) = Some ''whsec_test'' \<and>
   x_alchemy_signature \<lparr>body = ''not json'', x_alchemy_signature = None\<rparr> = None \<and>
   POST (example_platform (Some ''whsec_test'') 0) empty_store
     \<lparr>body = ''not json'', x_alchemy_signature = None\<rparr> =
     (errorResponse ''Unexpected token in JSON'' 500 JUndefined, empty_store) \<and>
   http_status (fst (POST (example_platform (Some ''whsec_test'') 0) empty_store
     \<lparr>body = ''not json'', x_alchemy_signature = None\<rparr>)) \<noteq> 401"
  by (simp add: POST_parse_error example_platform_def read_small handleApiError_def
        errorResponse_def)

text \<open>
  Claim C5, on the input where the handler departs from it. For a \<open>null\<close> payload the
  parser returns the "no data" result, as for every payload without a first activity
  entry, but the handler reads \<open>payload.type\<close> for its log line before it calls the
  parser: the read throws and the request is answered 500.
\<close>

theorem C5_null_body:
  "JSON_parse (example_platform None 0) ''null'' = Inr JNull \<and>
   parseAlchemyWebhook 0 JNull = Inr None \<and>
   POST (example_platform None 0) empty_store \<lparr>body = ''null'', x_alchemy_signature = None\<rparr> =
     (errorResponse
        (''Cannot read properties of null (reading '' @ [CHR 0x27] @ ''type'' @ [CHR 0x27] @ '')'')
        500 JUndefined, empty_store)"
  by (simp add: example_platform_def read_small parseAlchemyWebhook_def parseAlchemyWebhook_body_def
        first_activity_def try_catch_def POST_def POST_body_def verifyWebhookSignature_def
        handleApiError_def)







text \<open>
  Claim C8. The signature verifier always returns a boolean: no error leaves it. With
  a secret configured, an absent or empty signature header gives \<open>false\<close>; an error
  thrown while hashing gives \<open>false\<close>; a signature whose length differs from the
  digest's gives \<open>false\<close> (the comparison throws, and the error is caught); otherwise
  the result says whether the signature equals the digest.
\<close>

theorem C8_verifier_total:
  "(\<exists>b. verifyWebhookSignature P text signature = Inr b) \<and>
   (\<forall>key. ALCHEMY_WEBHOOK_SECRET P = Some key \<and> key \<noteq> [] \<longrightarrow>
      (signature = None \<or> signature = Some [] \<longrightarrow>
         verifyWebhookSignature P text signature = Inr False) \<and>
      (\<forall>claimed. signature = Some claimed \<and> claimed \<noteq> [] \<longrightarrow>
         (\<forall>error. hmac_sha256_hex P key text = Inl error \<longrightarrow>
            verifyWebhookSignature P text signature = Inr False) \<and>
         (\<forall>digest. hmac_sha256_hex P key text = Inr digest \<longrightarrow>
            (length claimed \<noteq> length digest \<longrightarrow>
               timingSafeEqual claimed digest \<noteq> Inr True \<and>
               timingSafeEqual claimed digest \<noteq> Inr False \<and>
               verifyWebhookSignature P text signature = Inr False) \<and>
            verifyWebhookSignature P text signature = Inr (claimed = digest))))"
  by (auto simp: verifyWebhookSignature_def try_catch_def timingSafeEqual_def
           split: option.splits sum.splits)

theorem C8_verifier_total_witness:
  "verifyWebhookSignature (example_platform (Some ''whsec_test'') 0) ''{}'' (Some ''abc'') = Inr False \<and>
   verifyWebhookSignature (example_platform (Some ''whsec_test'') 0) ''{}'' None = Inr False"
proof -
  let ?P = "example_platform (Some ''whsec_test'') 0"
  have k: "ALCHEMY_WEBHOOK_SECRET ?P = Some ''whsec_test''"
    and h: "hmac_sha256_hex ?P ''whsec_test'' ''{}'' = Inl (Error ''Error'' ''Invalid digest: sha256'')"
    by (simp_all add: example_platform_def)
  from C8_verifier_total [of ?P "''{}''" "Some ''abc''"] k h
  have "verifyWebhookSignature ?P ''{}'' (Some ''abc'') = Inr False" by simp
  moreover from C8_verifier_total [of ?P "''{}''" None] k
  have "verifyWebhookSignature ?P ''{}'' None = Inr False" by simp
  ultimately show ?thesis by simp
qed





end
